theory Spec2Isabelle
  imports Main "HOL-Library.AList"
begin

section \<open>Python values and the operations the trackers apply to them\<close>

text \<open>
  The module \<^verbatim>\<open>pyfacebook/ratelimit.py\<close> works on whatever \<^verbatim>\<open>json.loads\<close> hands
  back, so the model keeps Python's dynamic typing: one type of values, and every
  operation that can raise returns \<open>Inl\<close> of the exception it raises. Floating point
  numbers are left out of the value universe; an \<^verbatim>\<open>attrs\<close> instance of
  \<^verbatim>\<open>RateLimitData\<close> is a constructor whose selectors carry the attribute names of
  the source.
\<close>

datatype exn =
    AttributeError | TypeError | JSONDecodeError | KeyError | IndexError
  | RecursionError | ValueError | UnicodeDecodeError

datatype pyval =
    PNone
  | PBool bool
  | PInt int
  | PStr string
  | PList "pyval list"
  | PDict "(string \<times> pyval) list"
  | RateLimitData (call_count: pyval) (total_cputime: pyval) (total_time: pyval)
      (type: pyval) (estimated_time_to_regain_access: pyval)

text \<open>A Python object is its instance \<^verbatim>\<open>__dict__\<close>: attribute name to value.\<close>

type_synonym obj = "string \<rightharpoonup> pyval"

text \<open>
  Neither tracker class defines \<^verbatim>\<open>__getattr__\<close>, and no class attribute is called
  \<^verbatim>\<open>call_count\<close>, \<^verbatim>\<open>total_time\<close>, \<^verbatim>\<open>total_cputime\<close> or \<^verbatim>\<open>reset_at\<close>, so
  reading one of these from \<^verbatim>\<open>self\<close> is a lookup in the instance dictionary that
  raises \<^verbatim>\<open>AttributeError\<close> when the name is missing.
\<close>

definition getattr :: "obj \<Rightarrow> string \<Rightarrow> exn + pyval" where
  "getattr self name = (case self name of None \<Rightarrow> Inl AttributeError | Some v \<Rightarrow> Inr v)"

text \<open>The numbers among the values: \<^verbatim>\<open>bool\<close> is a subclass of \<^verbatim>\<open>int\<close>.\<close>

fun as_int :: "pyval \<Rightarrow> int option" where
  "as_int (PInt i) = Some i"
| "as_int (PBool b) = Some (if b then 1 else 0)"
| "as_int _ = None"

text \<open>\<^verbatim>\<open>x.items()\<close> and \<^verbatim>\<open>x.get(k, d)\<close>: only a dict has these methods.\<close>

fun py_items :: "pyval \<Rightarrow> exn + (string \<times> pyval) list" where
  "py_items (PDict kvs) = Inr kvs"
| "py_items _ = Inl AttributeError"

fun py_get :: "pyval \<Rightarrow> string \<Rightarrow> pyval \<Rightarrow> exn + pyval" where
  "py_get (PDict kvs) k d = Inr (case map_of kvs k of None \<Rightarrow> d | Some v \<Rightarrow> v)"
| "py_get _ k d = Inl AttributeError"

text \<open>Iteration: a list gives its elements, a string its characters, a dict its keys.\<close>

fun py_iter :: "pyval \<Rightarrow> exn + pyval list" where
  "py_iter (PList xs) = Inr xs"
| "py_iter (PStr s) = Inr (map (\<lambda>c. PStr [c]) s)"
| "py_iter (PDict kvs) = Inr (map (\<lambda>kv. PStr (fst kv)) kvs)"
| "py_iter _ = Inl TypeError"

text \<open>
  \<^verbatim>\<open>x[i]\<close> for an index \<open>i \<ge> 0\<close>. The keys of a decoded JSON object are strings, so
  an integer is never among them.
\<close>

fun py_getitem_index :: "pyval \<Rightarrow> nat \<Rightarrow> exn + pyval" where
  "py_getitem_index (PList xs) i = (if i < length xs then Inr (xs ! i) else Inl IndexError)"
| "py_getitem_index (PStr s) i = (if i < length s then Inr (PStr [s ! i]) else Inl IndexError)"
| "py_getitem_index (PDict kvs) i = Inl KeyError"
| "py_getitem_index _ i = Inl TypeError"

text \<open>\<^verbatim>\<open>x['k']\<close> and \<^verbatim>\<open>x['k'] = v\<close> for a string key.\<close>

fun py_getitem_key :: "pyval \<Rightarrow> string \<Rightarrow> exn + pyval" where
  "py_getitem_key (PDict kvs) k = (case map_of kvs k of None \<Rightarrow> Inl KeyError | Some v \<Rightarrow> Inr v)"
| "py_getitem_key _ k = Inl TypeError"

fun py_setitem_key :: "pyval \<Rightarrow> string \<Rightarrow> pyval \<Rightarrow> exn + pyval" where
  "py_setitem_key (PDict kvs) k v = Inr (PDict (AList.update k v kvs))"
| "py_setitem_key _ k v = Inl TypeError"

text \<open>\<^verbatim>\<open>n + x\<close> for an int \<open>n\<close>.\<close>

definition py_add_int :: "int \<Rightarrow> pyval \<Rightarrow> exn + int" where
  "py_add_int n x = (case as_int x of None \<Rightarrow> Inl TypeError | Some i \<Rightarrow> Inr (n + i))"

section \<open>Headers, the JSON decoder and the log\<close>

text \<open>
  A header value is text, bytes, or some other object of which only the truth value
  matters. \<^verbatim>\<open>json.loads\<close> is the standard library's, not code of this module, so
  it is a parameter of every definition that calls it: a function from the header value
  to the decoded value or to the exception raised. Nothing is assumed of it. Besides
  \<^verbatim>\<open>JSONDecodeError\<close> on text that is not a JSON document and \<^verbatim>\<open>TypeError\<close> on an
  object that is neither text nor bytes, it raises \<^verbatim>\<open>RecursionError\<close> on deeply
  nested input, \<^verbatim>\<open>ValueError\<close> on an integer literal beyond the digit limit, and
  \<^verbatim>\<open>UnicodeDecodeError\<close> on bytes that are not UTF-8.
\<close>

datatype hval = HStr string | HBytes string | HObj bool

type_synonym headers = "string \<rightharpoonup> hval"

type_synonym decoder = "hval \<Rightarrow> exn + pyval"

fun truthy :: "hval \<Rightarrow> bool" where
  "truthy (HStr s) = (s \<noteq> [])"
| "truthy (HBytes b) = (b \<noteq> [])"
| "truthy (HObj t) = t"

text \<open>
  What the module logs, one constructor per logging call, with the values the message
  is formatted from.
\<close>

datatype log_entry =
    Error_parse string hval exn
  | Debug_usage int int
  | Debug_no_info string hval
  | Debug_remain int

section \<open>The usage record\<close>

text \<open>
  \<^verbatim>\<open>RateLimitData\<close> called on an unpacked dict: the initialiser \<^verbatim>\<open>attrs\<close> generates takes the five
  attributes as keyword arguments with the declared defaults, converts and validates
  nothing, and raises \<^verbatim>\<open>TypeError\<close> on any other keyword. Unpacking with
  \<^verbatim>\<open>**\<close> raises \<^verbatim>\<open>TypeError\<close> on anything that is not a mapping.
\<close>

definition field_names :: "string list" where
  "field_names = [''call_count'', ''total_cputime'', ''total_time'', ''type'',
     ''estimated_time_to_regain_access'']"

definition kwarg :: "(string \<times> pyval) list \<Rightarrow> string \<Rightarrow> pyval \<Rightarrow> pyval" where
  "kwarg kwargs name d = (case map_of kwargs name of None \<Rightarrow> d | Some v \<Rightarrow> v)"

fun RateLimitData_init :: "pyval \<Rightarrow> exn + pyval" where
  "RateLimitData_init (PDict kwargs) =
     (if list_all (\<lambda>k. List.member field_names k) (map fst kwargs)
      then Inr (RateLimitData
                  (kwarg kwargs ''call_count'' (PInt 0))
                  (kwarg kwargs ''total_cputime'' (PInt 0))
                  (kwarg kwargs ''total_time'' (PInt 0))
                  (kwarg kwargs ''type'' PNone)
                  (kwarg kwargs ''estimated_time_to_regain_access'' PNone))
      else Inl TypeError)"
| "RateLimitData_init _ = Inl TypeError"

section \<open>The interval policy\<close>

definition get_interval :: "int \<Rightarrow> log_entry list \<times> int" where
  "get_interval usage_count =
     (if usage_count < 20 then ([], 1)
      else if usage_count < 50 then ([], 3)
      else if usage_count < 80 then ([], 5)
      else if usage_count < 90 then ([Debug_usage usage_count (60 * 5)], 60 * 5)
      else if usage_count < 100 then ([Debug_usage usage_count (60 * 10)], 60 * 10)
      else if usage_count > 100 then ([Debug_usage usage_count (60 * 20)], 60 * 20)
      else ([], 1))"

text \<open>
  \<^verbatim>\<open>get_interval(max(a, b, c))\<close> on three attribute values. \<^verbatim>\<open>max\<close> compares the
  second with the first and the third with the larger of the two, and \<^verbatim>\<open>get_interval\<close>
  compares the result with the int 20 first. Comparing a number with a value that is
  not one raises \<^verbatim>\<open>TypeError\<close>; when \<^verbatim>\<open>max\<close> succeeds on values that are not
  numbers it returns one of them, and the comparison with 20 raises \<^verbatim>\<open>TypeError\<close>
  before anything is logged. So the call returns exactly when all three values are
  numbers, and raises \<^verbatim>\<open>TypeError\<close> otherwise.
\<close>

definition max_usage_interval :: "pyval \<Rightarrow> pyval \<Rightarrow> pyval \<Rightarrow> log_entry list \<times> (exn + int)" where
  "max_usage_interval a b c =
     (case (as_int a, as_int b, as_int c) of
        (Some x, Some y, Some z) \<Rightarrow>
          (case get_interval (max x (max y z)) of (l, interval) \<Rightarrow> (l, Inr interval))
      | _ \<Rightarrow> ([], Inl TypeError))"

section \<open>The application tracker, class RateLimit\<close>

definition RateLimit_init :: "pyval \<Rightarrow> obj" where
  "RateLimit_init rate_type = [''resources'' \<mapsto> PDict [], ''_type'' \<mapsto> rate_type]"

definition parse_headers :: "decoder \<Rightarrow> headers \<Rightarrow> string \<Rightarrow> log_entry list \<times> (exn + pyval)" where
  "parse_headers json_loads headers key =
     (case headers key of
        None \<Rightarrow> ([], Inr PNone)
      | Some usage \<Rightarrow>
          if truthy usage then
            (case json_loads usage of
               Inr data \<Rightarrow> ([], Inr data)
             | Inl ex \<Rightarrow>
                 if ex = TypeError \<or> ex = JSONDecodeError
                 then ([Error_parse key usage ex], Inr PNone)
                 else ([], Inl ex))
          else ([], Inr PNone))"

text \<open>
  Lines 75 and 76. The right-hand side is evaluated first, then
  \<^verbatim>\<open>self.__dict__["resources"]\<close>, then the item is stored.
\<close>

definition set_app_usage :: "pyval \<Rightarrow> obj \<Rightarrow> exn option \<times> obj" where
  "set_app_usage app_usage self =
     (if app_usage \<noteq> PNone then
        (case RateLimitData_init app_usage of
           Inl e \<Rightarrow> (Some e, self)
         | Inr d \<Rightarrow>
             (case self ''resources'' of
                None \<Rightarrow> (Some KeyError, self)
              | Some res \<Rightarrow>
                  (case py_setitem_key res ''app'' d of
                     Inl e \<Rightarrow> (Some e, self)
                   | Inr res' \<Rightarrow> (None, self(''resources'' \<mapsto> res')))))
      else (None, self))"

text \<open>The list comprehension of line 81, which stops at the first item that raises.\<close>

fun create_records :: "pyval list \<Rightarrow> exn + pyval list" where
  "create_records [] = Inr []"
| "create_records (item # items) =
     (case RateLimitData_init item of
        Inl e \<Rightarrow> Inl e
      | Inr d \<Rightarrow> (case create_records items of Inl e \<Rightarrow> Inl e | Inr ds \<Rightarrow> Inr (d # ds)))"

definition records_of :: "pyval \<Rightarrow> exn + pyval list" where
  "records_of items = (case py_iter items of Inl e \<Rightarrow> Inl e | Inr xs \<Rightarrow> create_records xs)"

text \<open>The loop of lines 80 and 81: every iteration assigns \<^verbatim>\<open>resources\<close> anew.\<close>

fun set_business_usage_loop :: "(string \<times> pyval) list \<Rightarrow> obj \<Rightarrow> exn option \<times> obj" where
  "set_business_usage_loop [] self = (None, self)"
| "set_business_usage_loop ((business_id, items) # rest) self =
     (case records_of items of
        Inl e \<Rightarrow> (Some e, self)
      | Inr ds \<Rightarrow> set_business_usage_loop rest (self(''resources'' \<mapsto> PList ds)))"

definition set_business_usage :: "pyval \<Rightarrow> obj \<Rightarrow> exn option \<times> obj" where
  "set_business_usage business_usage self =
     (if business_usage \<noteq> PNone then
        (case py_items business_usage of
           Inl e \<Rightarrow> (Some e, self)
         | Inr kvs \<Rightarrow> set_business_usage_loop kvs self)
      else (None, self))"

text \<open>
  \<^verbatim>\<open>set_limit\<close> returns what it logged, the exception it raised if any, and the
  object as the call leaves it (an exception does not undo the assignments before it).
\<close>

definition RateLimit_set_limit ::
    "decoder \<Rightarrow> headers \<Rightarrow> obj \<Rightarrow> log_entry list \<times> exn option \<times> obj" where
  "RateLimit_set_limit json_loads headers self =
     (case parse_headers json_loads headers ''x-app-usage'' of
        (l1, Inl e) \<Rightarrow> (l1, Some e, self)
      | (l1, Inr app_usage) \<Rightarrow>
          (case set_app_usage app_usage self of
             (Some e, self1) \<Rightarrow> (l1, Some e, self1)
           | (None, self1) \<Rightarrow>
               (case parse_headers json_loads headers ''x-business-use-case-usage'' of
                  (l2, Inl e) \<Rightarrow> (l1 @ l2, Some e, self1)
                | (l2, Inr business_usage) \<Rightarrow>
                    (case set_business_usage business_usage self1 of
                       (r, self2) \<Rightarrow> (l1 @ l2, r, self2)))))"

definition RateLimit_get_sleep_interval :: "obj \<Rightarrow> log_entry list \<times> (exn + int)" where
  "RateLimit_get_sleep_interval self =
     (case getattr self ''call_count'' of
        Inl e \<Rightarrow> ([], Inl e)
      | Inr a \<Rightarrow>
          (case getattr self ''total_time'' of
             Inl e \<Rightarrow> ([], Inl e)
           | Inr b \<Rightarrow>
               (case getattr self ''total_cputime'' of
                  Inl e \<Rightarrow> ([], Inl e)
                | Inr c \<Rightarrow> max_usage_interval a b c)))"

text \<open>
  The \<^verbatim>\<open>info\<close> property returns a format string filled with attribute values: the
  model returns the template and the values, in the order of the arguments.
\<close>

definition RateLimit_info :: "obj \<Rightarrow> exn + string \<times> pyval list" where
  "RateLimit_info self =
     (case getattr self ''call_count'' of
        Inl e \<Rightarrow> Inl e
      | Inr a \<Rightarrow>
          (case getattr self ''total_cputime'' of
             Inl e \<Rightarrow> Inl e
           | Inr b \<Rightarrow>
               (case getattr self ''total_time'' of
                  Inl e \<Rightarrow> Inl e
                | Inr c \<Rightarrow>
                    Inr (''Current Limit is RateLimit(call_count={0},total_cputime={1},total_time={2})'',
                         [a, b, c]))))"

text \<open>A tracker after a sequence of \<^verbatim>\<open>set_limit\<close> calls, whether they raised or not.\<close>

fun set_limits :: "decoder \<Rightarrow> headers list \<Rightarrow> obj \<Rightarrow> obj" where
  "set_limits json_loads [] self = self"
| "set_limits json_loads (h # hs) self =
     set_limits json_loads hs (snd (snd (RateLimit_set_limit json_loads h self)))"

section \<open>The entity tracker, class InstagramRateLimit\<close>

text \<open>
  The constructor takes its keyword arguments as a dict. \<^verbatim>\<open>int(time.time())\<close> is
  the parameter \<open>now\<close> of the two methods that read the clock.
\<close>

definition InstagramRateLimit_init :: "(string \<times> pyval) list \<Rightarrow> obj" where
  "InstagramRateLimit_init kwargs =
     [''type'' \<mapsto> PStr ''instagram'',
      ''call_count'' \<mapsto> kwarg kwargs ''call_count'' (PInt 0),
      ''total_cputime'' \<mapsto> kwarg kwargs ''total_cputime'' (PInt 0),
      ''total_time'' \<mapsto> kwarg kwargs ''total_time'' (PInt 0),
      ''reset_at'' \<mapsto> kwarg kwargs ''reset_at'' (PInt 0)]"

definition default_usage :: pyval where
  "default_usage =
     PDict [(''call_count'', PInt 0), (''total_cputime'', PInt 0), (''total_time'', PInt 0),
            (''estimated_time_to_regain_access'', PInt 0)]"

text \<open>
  The \<^verbatim>\<open>try\<close> statement of lines 116 to 123: decoding, the lookup of the entity
  and the first element of its array are inside it, and it catches
  \<^verbatim>\<open>TypeError\<close> and \<^verbatim>\<open>JSONDecodeError\<close> only.
\<close>

definition select_usage :: "decoder \<Rightarrow> hval \<Rightarrow> string \<Rightarrow> log_entry list \<times> (exn + pyval)" where
  "select_usage json_loads x_business_use_case_usage instagram_business_id =
     (case (case json_loads x_business_use_case_usage of
              Inl e \<Rightarrow> Inl e
            | Inr usage_data \<Rightarrow>
                (case py_get usage_data instagram_business_id (PList [default_usage]) of
                   Inl e \<Rightarrow> Inl e
                 | Inr usages \<Rightarrow> py_getitem_index usages 0)) of
        Inr data \<Rightarrow> ([], Inr data)
      | Inl ex \<Rightarrow>
          if ex = TypeError \<or> ex = JSONDecodeError
          then ([Debug_no_info instagram_business_id x_business_use_case_usage], Inr default_usage)
          else ([], Inl ex))"

text \<open>Lines 124 to 128: four assignments, each of which may raise after the ones before it.\<close>

definition store_usage :: "int \<Rightarrow> pyval \<Rightarrow> obj \<Rightarrow> exn option \<times> obj" where
  "store_usage now data self =
     (case py_getitem_key data ''call_count'' of
        Inl e \<Rightarrow> (Some e, self)
      | Inr v1 \<Rightarrow>
          (case py_getitem_key data ''total_cputime'' of
             Inl e \<Rightarrow> (Some e, self(''call_count'' \<mapsto> v1))
           | Inr v2 \<Rightarrow>
               (case py_getitem_key data ''total_time'' of
                  Inl e \<Rightarrow> (Some e, self(''call_count'' \<mapsto> v1, ''total_cputime'' \<mapsto> v2))
                | Inr v3 \<Rightarrow>
                    (case (case py_getitem_key data ''estimated_time_to_regain_access'' of
                             Inl e \<Rightarrow> Inl e
                           | Inr v4 \<Rightarrow> py_add_int now v4) of
                       Inl e \<Rightarrow>
                         (Some e, self(''call_count'' \<mapsto> v1, ''total_cputime'' \<mapsto> v2,
                                       ''total_time'' \<mapsto> v3))
                     | Inr r \<Rightarrow>
                         (None, self(''call_count'' \<mapsto> v1, ''total_cputime'' \<mapsto> v2,
                                     ''total_time'' \<mapsto> v3, ''reset_at'' \<mapsto> PInt r))))))"

definition InstagramRateLimit_set_limit ::
    "decoder \<Rightarrow> int \<Rightarrow> headers \<Rightarrow> string \<Rightarrow> obj \<Rightarrow> log_entry list \<times> exn option \<times> obj" where
  "InstagramRateLimit_set_limit json_loads now headers instagram_business_id self =
     (case headers ''x-business-use-case-usage'' of
        None \<Rightarrow> ([], None, self)
      | Some x_business_use_case_usage \<Rightarrow>
          if truthy x_business_use_case_usage then
            (case select_usage json_loads x_business_use_case_usage instagram_business_id of
               (l, Inl e) \<Rightarrow> (l, Some e, self)
             | (l, Inr data) \<Rightarrow>
                 (case store_usage now data self of (r, self') \<Rightarrow> (l, r, self')))
          else ([], None, self))"

text \<open>
  \<^verbatim>\<open>self.reset_at > now\<close> compares with an int, so it raises \<^verbatim>\<open>TypeError\<close> unless
  \<^verbatim>\<open>reset_at\<close> is a number.
\<close>

definition InstagramRateLimit_get_sleep_interval :: "int \<Rightarrow> obj \<Rightarrow> log_entry list \<times> (exn + int)" where
  "InstagramRateLimit_get_sleep_interval now self =
     (case getattr self ''reset_at'' of
        Inl e \<Rightarrow> ([], Inl e)
      | Inr reset_at \<Rightarrow>
          (case as_int reset_at of
             None \<Rightarrow> ([], Inl TypeError)
           | Some r \<Rightarrow>
               if r > now then ([Debug_remain (r - now)], Inr (r - now))
               else
                 (case getattr self ''call_count'' of
                    Inl e \<Rightarrow> ([], Inl e)
                  | Inr a \<Rightarrow>
                      (case getattr self ''total_time'' of
                         Inl e \<Rightarrow> ([], Inl e)
                       | Inr b \<Rightarrow>
                           (case getattr self ''total_cputime'' of
                              Inl e \<Rightarrow> ([], Inl e)
                            | Inr c \<Rightarrow> max_usage_interval a b c)))))"

section \<open>Payloads used in the examples\<close>

text \<open>
  The values of \<^verbatim>\<open>json.loads\<close> on the payloads of the examples below. A hundred
  thousand opening brackets exceed the recursion limit of the decoder; the empty string
  and \<^verbatim>\<open>not-json\<close> are not JSON documents; no other input is used.
\<close>

definition app_15 :: string where
  \<open>app_15 = ''{"call_count":15,"total_cputime":0,"total_time":0}''\<close>

definition app_partial :: string where
  \<open>app_partial = ''{"call_count":15,"total_cputime":2}''\<close>

definition app_unknown :: string where
  \<open>app_unknown = ''{"call_count":15,"ads_api_access_tier":"standard"}''\<close>

definition business_two :: string where
  \<open>business_two = ''{"1":[{"call_count":10}],"2":[{"call_count":20}]}''\<close>

definition business_123 :: string where
  \<open>business_123 = ''{"123":[{"call_count":95,"total_cputime":10,"total_time":10,"estimated_time_to_regain_access":120}]}''\<close>

definition business_empty :: string where
  \<open>business_empty = ''{"123":[]}''\<close>

definition deeply_nested :: string where
  "deeply_nested = replicate 100000 (CHR ''['')"

definition sample_table :: "(string \<times> pyval) list" where
  "sample_table =
     [(app_15, PDict [(''call_count'', PInt 15), (''total_cputime'', PInt 0), (''total_time'', PInt 0)]),
      (app_partial, PDict [(''call_count'', PInt 15), (''total_cputime'', PInt 2)]),
      (app_unknown, PDict [(''call_count'', PInt 15), (''ads_api_access_tier'', PStr ''standard'')]),
      (business_two,
         PDict [(''1'', PList [PDict [(''call_count'', PInt 10)]]),
                (''2'', PList [PDict [(''call_count'', PInt 20)]])]),
      (business_123,
         PDict [(''123'', PList [PDict [(''call_count'', PInt 95), (''total_cputime'', PInt 10),
                                        (''total_time'', PInt 10),
                                        (''estimated_time_to_regain_access'', PInt 120)]])]),
      (business_empty, PDict [(''123'', PList [])])]"

definition sample_text :: "string \<Rightarrow> exn + pyval" where
  "sample_text s =
     (case map_of sample_table s of
        Some v \<Rightarrow> Inr v
      | None \<Rightarrow> if s = deeply_nested then Inl RecursionError else Inl JSONDecodeError)"

definition sample_loads :: decoder where
  "sample_loads usage =
     (case usage of
        HStr s \<Rightarrow> sample_text s
      | HBytes b \<Rightarrow> sample_text b
      | HObj t \<Rightarrow> Inl TypeError)"

text \<open>Header mappings and tracker states of the examples.\<close>

definition headers_empty_app :: headers where
  "headers_empty_app = [''x-app-usage'' \<mapsto> HStr '''']"

definition headers_not_json :: headers where
  "headers_not_json = [''x-app-usage'' \<mapsto> HStr ''not-json'']"

definition headers_app_15 :: headers where
  "headers_app_15 = [''x-app-usage'' \<mapsto> HStr app_15]"

definition headers_app_partial :: headers where
  "headers_app_partial = [''x-app-usage'' \<mapsto> HStr app_partial]"

definition headers_app_unknown :: headers where
  "headers_app_unknown = [''x-app-usage'' \<mapsto> HStr app_unknown]"

definition headers_app_and_business :: headers where
  "headers_app_and_business =
     [''x-app-usage'' \<mapsto> HStr app_15, ''x-business-use-case-usage'' \<mapsto> HStr business_two]"

definition headers_business_123 :: headers where
  "headers_business_123 = [''x-business-use-case-usage'' \<mapsto> HStr business_123]"

definition headers_business_empty :: headers where
  "headers_business_empty = [''x-business-use-case-usage'' \<mapsto> HStr business_empty]"

definition headers_business_not_json :: headers where
  "headers_business_not_json = [''x-business-use-case-usage'' \<mapsto> HStr ''not-json'']"

definition headers_app_nested :: headers where
  "headers_app_nested = [''x-app-usage'' \<mapsto> HStr deeply_nested]"

definition headers_business_nested :: headers where
  "headers_business_nested = [''x-business-use-case-usage'' \<mapsto> HStr deeply_nested]"

definition entity_50 :: obj where
  "entity_50 = InstagramRateLimit_init [(''call_count'', PInt 50), (''reset_at'', PInt 5000)]"

definition usage_123 :: "(string \<times> pyval) list" where
  "usage_123 = [(''call_count'', PInt 95), (''total_cputime'', PInt 10), (''total_time'', PInt 10),
                (''estimated_time_to_regain_access'', PInt 120)]"

section \<open>Notions of the specification\<close>

text \<open>
  The specification's reading of the business update: one record per array entry
  across all business ids, in the order of the ids.
\<close>

fun records_across_all_ids :: "(string \<times> pyval) list \<Rightarrow> exn + pyval list" where
  "records_across_all_ids [] = Inr []"
| "records_across_all_ids ((business_id, items) # rest) =
     (case records_of items of
        Inl e \<Rightarrow> Inl e
      | Inr ds \<Rightarrow>
          (case records_across_all_ids rest of Inl e \<Rightarrow> Inl e | Inr es \<Rightarrow> Inr (ds @ es)))"

text \<open>
  A usage header carries no payload when it is absent, empty, or a value on which
  \<^verbatim>\<open>json.loads\<close> raises one of the two exceptions that the module catches. The
  application tracker logs one error for a header of the last kind.
\<close>

definition no_payload :: "decoder \<Rightarrow> headers \<Rightarrow> string \<Rightarrow> bool" where
  "no_payload json_loads headers key =
     (case headers key of
        None \<Rightarrow> True
      | Some usage \<Rightarrow>
          (if truthy usage
           then json_loads usage = Inl TypeError \<or> json_loads usage = Inl JSONDecodeError
           else True))"

definition error_log :: "decoder \<Rightarrow> headers \<Rightarrow> string \<Rightarrow> log_entry list" where
  "error_log json_loads headers key =
     (case headers key of
        None \<Rightarrow> []
      | Some usage \<Rightarrow>
          (if truthy usage
           then (case json_loads usage of
                   Inl ex \<Rightarrow> [Error_parse key usage ex]
                 | Inr data \<Rightarrow> [])
           else []))"

section \<open>Evaluation of the examples\<close>

lemma deeply_nested_hd: "hd deeply_nested = CHR ''[''" "deeply_nested \<noteq> []"
  by (simp_all add: deeply_nested_def)

lemma not_nested: "hd s \<noteq> CHR ''['' \<Longrightarrow> s \<noteq> deeply_nested"
  using deeply_nested_hd(1) by auto

lemma sample_not_nested:
  "app_15 \<noteq> deeply_nested" "app_partial \<noteq> deeply_nested" "app_unknown \<noteq> deeply_nested"
  "business_two \<noteq> deeply_nested" "business_123 \<noteq> deeply_nested"
  "business_empty \<noteq> deeply_nested"
  "''not-json'' \<noteq> deeply_nested" "[] \<noteq> deeply_nested"
  using deeply_nested_hd(2)
  by (simp_all add: not_nested app_15_def app_partial_def app_unknown_def business_two_def
        business_123_def business_empty_def)

lemma sample_loads_simps:
  "sample_loads (HStr '''') = Inl JSONDecodeError"
  "sample_loads (HStr ''not-json'') = Inl JSONDecodeError"
  "sample_loads (HStr deeply_nested) = Inl RecursionError"
  "sample_loads (HStr app_15) =
     Inr (PDict [(''call_count'', PInt 15), (''total_cputime'', PInt 0), (''total_time'', PInt 0)])"
  "sample_loads (HStr app_partial) =
     Inr (PDict [(''call_count'', PInt 15), (''total_cputime'', PInt 2)])"
  "sample_loads (HStr app_unknown) =
     Inr (PDict [(''call_count'', PInt 15), (''ads_api_access_tier'', PStr ''standard'')])"
  "sample_loads (HStr business_two) =
     Inr (PDict [(''1'', PList [PDict [(''call_count'', PInt 10)]]),
                 (''2'', PList [PDict [(''call_count'', PInt 20)]])])"
  "sample_loads (HStr business_123) =
     Inr (PDict [(''123'', PList [PDict [(''call_count'', PInt 95), (''total_cputime'', PInt 10),
                                         (''total_time'', PInt 10),
                                         (''estimated_time_to_regain_access'', PInt 120)]])])"
  "sample_loads (HStr business_empty) = Inr (PDict [(''123'', PList [])])"
  using sample_not_nested sample_not_nested [symmetric]
  by (simp_all add: sample_loads_def sample_text_def sample_table_def app_15_def app_partial_def
        app_unknown_def business_two_def business_123_def business_empty_def)

lemma sample_truthy:
  "truthy (HStr app_15)" "truthy (HStr app_unknown)" "truthy (HStr business_two)"
  "truthy (HStr business_123)" "truthy (HStr business_empty)" "truthy (HStr deeply_nested)"
  "truthy (HStr ''not-json'')" "truthy (HStr app_partial)"
  using deeply_nested_hd(2)
  by (simp_all add: app_15_def app_partial_def app_unknown_def business_two_def business_123_def
        business_empty_def)

section \<open>The interval policy\<close>

text \<open>
  C3. The interval is 1 below 20 (negative usage included), 3 from 20 and below 50,
  5 from 50 and below 80, 300 from 80 and below 90, 600 from 90 and below 100, 1200
  above 100, and 1 at exactly 100, which no branch handles.
\<close>

theorem get_interval_tiers:
  "(u < 20 \<longrightarrow> snd (get_interval u) = 1) \<and>
   (20 \<le> u \<and> u < 50 \<longrightarrow> snd (get_interval u) = 3) \<and>
   (50 \<le> u \<and> u < 80 \<longrightarrow> snd (get_interval u) = 5) \<and>
   (80 \<le> u \<and> u < 90 \<longrightarrow> snd (get_interval u) = 300) \<and>
   (90 \<le> u \<and> u < 100 \<longrightarrow> snd (get_interval u) = 600) \<and>
   (100 < u \<longrightarrow> snd (get_interval u) = 1200) \<and>
   (u = 100 \<longrightarrow> snd (get_interval u) = 1)"
  by (simp add: get_interval_def)

text \<open>One usage count in every tier, and the boundary.\<close>

theorem get_interval_tiers_witness:
  "(-7 :: int) < 20 \<and> snd (get_interval (-7)) = 1 \<and>
   (20 :: int) \<le> 20 \<and> (20 :: int) < 50 \<and> snd (get_interval 20) = 3 \<and>
   (50 :: int) \<le> 79 \<and> (79 :: int) < 80 \<and> snd (get_interval 79) = 5 \<and>
   (80 :: int) \<le> 80 \<and> (80 :: int) < 90 \<and> snd (get_interval 80) = 300 \<and>
   (90 :: int) \<le> 99 \<and> (99 :: int) < 100 \<and> snd (get_interval 99) = 600 \<and>
   (100 :: int) < 101 \<and> snd (get_interval 101) = 1200 \<and>
   snd (get_interval 100) = 1"
  using get_interval_tiers [of "-7"] get_interval_tiers [of 20] get_interval_tiers [of 79]
    get_interval_tiers [of 80] get_interval_tiers [of 99] get_interval_tiers [of 101]
    get_interval_tiers [of 100]
  by simp

text \<open>
  C9. The policy is not monotonic: from 99 to 100 the interval falls from 600 to 1,
  because the chain of comparisons tests \<open>< 100\<close> and then \<open>> 100\<close>.
\<close>

theorem get_interval_drops_at_100:
  "(99 :: int) \<le> 100 \<and> snd (get_interval 99) = 600 \<and> snd (get_interval 100) = 1 \<and>
   \<not> snd (get_interval 99) \<le> snd (get_interval 100)"
  by (simp add: get_interval_def)

section \<open>The usage record\<close>

lemma kwarg_absent: "name \<notin> fst ` set kwargs \<Longrightarrow> kwarg kwargs name d = d"
  by (simp add: kwarg_def map_of_eq_None_iff [THEN iffD2])

lemma kwarg_present: "map_of kwargs name = Some v \<Longrightarrow> kwarg kwargs name d = v"
  by (simp add: kwarg_def)

lemma known_keywords: "list_all (\<lambda>k. List.member field_names k) ks \<longleftrightarrow> set ks \<subseteq> set field_names"
  by (auto simp: list_all_iff)

text \<open>
  C10. Constructing a usage record from a JSON object whose keys are all among the five
  attributes succeeds; an attribute the object omits gets its default (0 for the three
  counters, \<^verbatim>\<open>None\<close> for the other two), and one it gives is stored as given.
\<close>

theorem RateLimitData_partial_defaults:
  assumes "set (map fst kwargs) \<subseteq> set field_names"
  shows "\<exists>cc ct tt ty eta.
    RateLimitData_init (PDict kwargs) = Inr (RateLimitData cc ct tt ty eta) \<and>
    (''call_count'' \<notin> fst ` set kwargs \<longrightarrow> cc = PInt 0) \<and>
    (''total_cputime'' \<notin> fst ` set kwargs \<longrightarrow> ct = PInt 0) \<and>
    (''total_time'' \<notin> fst ` set kwargs \<longrightarrow> tt = PInt 0) \<and>
    (''type'' \<notin> fst ` set kwargs \<longrightarrow> ty = PNone) \<and>
    (''estimated_time_to_regain_access'' \<notin> fst ` set kwargs \<longrightarrow> eta = PNone) \<and>
    (\<forall>v. map_of kwargs ''call_count'' = Some v \<longrightarrow> cc = v) \<and>
    (\<forall>v. map_of kwargs ''total_cputime'' = Some v \<longrightarrow> ct = v) \<and>
    (\<forall>v. map_of kwargs ''total_time'' = Some v \<longrightarrow> tt = v) \<and>
    (\<forall>v. map_of kwargs ''type'' = Some v \<longrightarrow> ty = v) \<and>
    (\<forall>v. map_of kwargs ''estimated_time_to_regain_access'' = Some v \<longrightarrow> eta = v)"
  using assms by (simp add: known_keywords kwarg_absent kwarg_present)

text \<open>An object that omits \<^verbatim>\<open>total_time\<close> and the two optional attributes.\<close>

theorem RateLimitData_partial_defaults_witness:
  "set (map fst [(''call_count'', PInt 15), (''total_cputime'', PInt 2)]) \<subseteq> set field_names \<and>
   RateLimitData_init (PDict [(''call_count'', PInt 15), (''total_cputime'', PInt 2)])
     = Inr (RateLimitData (PInt 15) (PInt 2) (PInt 0) PNone PNone)"
proof -
  have h: "set (map fst [(''call_count'', PInt 15), (''total_cputime'', PInt 2)]) \<subseteq> set field_names"
    by (simp add: field_names_def)
  show ?thesis
    using h RateLimitData_partial_defaults [OF h] by auto
qed

section \<open>The header parser\<close>

text \<open>
  C8, as stated, fails twice. An empty header value is present and is not a JSON
  document, but \<^verbatim>\<open>if usage:\<close> skips it, so nothing is logged. And on deeply nested
  input \<^verbatim>\<open>json.loads\<close> raises \<^verbatim>\<open>RecursionError\<close>, which the \<^verbatim>\<open>except\<close>
  clause does not name, so the failure reaches the caller.
\<close>

theorem parse_headers_silent_or_raising:
  "headers_empty_app ''x-app-usage'' = Some (HStr '''') \<and>
   sample_loads (HStr '''') = Inl JSONDecodeError \<and>
   parse_headers sample_loads headers_empty_app ''x-app-usage'' = ([], Inr PNone) \<and>
   headers_app_nested ''x-app-usage'' = Some (HStr deeply_nested) \<and>
   sample_loads (HStr deeply_nested) = Inl RecursionError \<and>
   parse_headers sample_loads headers_app_nested ''x-app-usage'' = ([], Inl RecursionError)"
  using sample_truthy(6)
  by (simp add: headers_empty_app_def headers_app_nested_def parse_headers_def sample_loads_simps)

text \<open>
  C8, amended. \<^verbatim>\<open>parse_headers\<close> returns \<^verbatim>\<open>None\<close> without logging when the key is
  absent or its value is empty (falsy). When the value is non-empty and
  \<^verbatim>\<open>json.loads\<close> raises \<^verbatim>\<open>TypeError\<close> or \<^verbatim>\<open>JSONDecodeError\<close>, it logs one
  error with the key, the raw value and the exception and returns \<^verbatim>\<open>None\<close>. When
  \<^verbatim>\<open>json.loads\<close> returns, it returns the decoded value and logs nothing. Any other
  exception of \<^verbatim>\<open>json.loads\<close> is not caught and reaches the caller.
\<close>

theorem parse_headers_recovers:
  "(headers key = None \<longrightarrow> parse_headers json_loads headers key = ([], Inr PNone)) \<and>
   (headers key = Some usage \<and> \<not> truthy usage \<longrightarrow>
      parse_headers json_loads headers key = ([], Inr PNone)) \<and>
   (headers key = Some usage \<and> truthy usage \<and> json_loads usage = Inl ex \<and>
    (ex = TypeError \<or> ex = JSONDecodeError) \<longrightarrow>
      parse_headers json_loads headers key = ([Error_parse key usage ex], Inr PNone)) \<and>
   (headers key = Some usage \<and> truthy usage \<and> json_loads usage = Inr data \<longrightarrow>
      parse_headers json_loads headers key = ([], Inr data)) \<and>
   (headers key = Some usage \<and> truthy usage \<and> json_loads usage = Inl ex \<and>
    ex \<noteq> TypeError \<and> ex \<noteq> JSONDecodeError \<longrightarrow>
      parse_headers json_loads headers key = ([], Inl ex))"
  by (simp add: parse_headers_def)

text \<open>
  A mapping whose application header is \<^verbatim>\<open>not-json\<close> and which has no business
  header; an empty application header; one that decodes; and one nested too deeply.
\<close>

theorem parse_headers_recovers_witness:
  "parse_headers sample_loads headers_not_json ''x-business-use-case-usage'' = ([], Inr PNone) \<and>
   parse_headers sample_loads headers_empty_app ''x-app-usage'' = ([], Inr PNone) \<and>
   parse_headers sample_loads headers_not_json ''x-app-usage''
     = ([Error_parse ''x-app-usage'' (HStr ''not-json'') JSONDecodeError], Inr PNone) \<and>
   parse_headers sample_loads headers_app_15 ''x-app-usage''
     = ([], Inr (PDict [(''call_count'', PInt 15), (''total_cputime'', PInt 0),
                        (''total_time'', PInt 0)])) \<and>
   parse_headers sample_loads headers_app_nested ''x-app-usage'' = ([], Inl RecursionError)"
proof -
  have h: "headers_not_json ''x-business-use-case-usage'' = None"
    "headers_empty_app ''x-app-usage'' = Some (HStr '''')"
    "headers_not_json ''x-app-usage'' = Some (HStr ''not-json'')"
    "headers_app_15 ''x-app-usage'' = Some (HStr app_15)"
    "headers_app_nested ''x-app-usage'' = Some (HStr deeply_nested)"
    by (simp_all add: headers_not_json_def headers_empty_app_def headers_app_15_def
          headers_app_nested_def)
  have e: "\<not> truthy (HStr '''')" by simp
  note absent = parse_headers_recovers
    [where headers = headers_not_json and key = "''x-business-use-case-usage''"
       and json_loads = sample_loads, THEN conjunct1, rule_format]
  note empty = parse_headers_recovers
    [where headers = headers_empty_app and key = "''x-app-usage''" and usage = "HStr ''''"
       and json_loads = sample_loads, THEN conjunct2, THEN conjunct1, rule_format]
  note rejected = parse_headers_recovers
    [where headers = headers_not_json and key = "''x-app-usage''" and usage = "HStr ''not-json''"
       and json_loads = sample_loads and ex = JSONDecodeError,
     THEN conjunct2, THEN conjunct2, THEN conjunct1, rule_format]
  note decoded = parse_headers_recovers
    [where headers = headers_app_15 and key = "''x-app-usage''" and usage = "HStr app_15"
       and json_loads = sample_loads,
     THEN conjunct2, THEN conjunct2, THEN conjunct2, THEN conjunct1, rule_format]
  note raised = parse_headers_recovers
    [where headers = headers_app_nested and key = "''x-app-usage''" and usage = "HStr deeply_nested"
       and json_loads = sample_loads and ex = RecursionError,
     THEN conjunct2, THEN conjunct2, THEN conjunct2, THEN conjunct2, rule_format]
  show ?thesis
    using absent empty rejected decoded raised h e sample_truthy sample_loads_simps
    by simp
qed

section \<open>The application tracker\<close>

text \<open>
  C1. \<^verbatim>\<open>get_sleep_interval\<close> of the application tracker does not return the minimum
  interval: on a fresh tracker, and on one whose \<^verbatim>\<open>set_limit\<close> has just stored a
  record with \<^verbatim>\<open>call_count\<close> 15 under \<^verbatim>\<open>resources["app"]\<close>, reading
  \<^verbatim>\<open>self.call_count\<close> raises \<^verbatim>\<open>AttributeError\<close>.
\<close>

theorem RateLimit_get_sleep_interval_raises:
  "RateLimit_get_sleep_interval (RateLimit_init (PStr ''app'')) = ([], Inl AttributeError) \<and>
   fst (snd (RateLimit_set_limit sample_loads headers_app_15 (RateLimit_init (PStr ''app'')))) = None \<and>
   snd (snd (RateLimit_set_limit sample_loads headers_app_15 (RateLimit_init (PStr ''app''))))
       ''resources''
     = Some (PDict [(''app'', RateLimitData (PInt 15) (PInt 0) (PInt 0) PNone PNone)]) \<and>
   RateLimit_get_sleep_interval
     (snd (snd (RateLimit_set_limit sample_loads headers_app_15 (RateLimit_init (PStr ''app'')))))
     = ([], Inl AttributeError)"
  using sample_truthy
  by (simp add: RateLimit_get_sleep_interval_def getattr_def RateLimit_init_def RateLimit_set_limit_def
    headers_app_15_def parse_headers_def sample_loads_simps set_app_usage_def set_business_usage_def
    kwarg_def field_names_def)

text \<open>\<^verbatim>\<open>set_limit\<close> assigns to no attribute of the tracker but \<^verbatim>\<open>resources\<close>.\<close>

lemma set_app_usage_other: "name \<noteq> ''resources'' \<Longrightarrow> snd (set_app_usage app_usage self) name = self name"
  by (simp add: set_app_usage_def split: sum.splits option.splits)

lemma set_business_usage_loop_other:
  "name \<noteq> ''resources'' \<Longrightarrow> snd (set_business_usage_loop kvs self) name = self name"
  by (induction kvs self rule: set_business_usage_loop.induct) (simp_all split: sum.splits)

lemma set_business_usage_other:
  "name \<noteq> ''resources'' \<Longrightarrow> snd (set_business_usage business_usage self) name = self name"
  by (simp add: set_business_usage_def set_business_usage_loop_other split: sum.splits)

lemma RateLimit_set_limit_other:
  "name \<noteq> ''resources'' \<Longrightarrow> snd (snd (RateLimit_set_limit json_loads headers self)) name = self name"
  using set_app_usage_other [of name] set_business_usage_other [of name]
  by (auto simp: RateLimit_set_limit_def split: prod.splits sum.splits option.splits)
     (metis snd_conv)+

lemma set_limits_other:
  "name \<noteq> ''resources'' \<Longrightarrow> set_limits json_loads hs self name = self name"
  by (induction hs arbitrary: self) (simp_all add: RateLimit_set_limit_other)

text \<open>
  C2. After any sequence of \<^verbatim>\<open>set_limit\<close> calls on a newly constructed tracker,
  whatever \<^verbatim>\<open>json.loads\<close> does, whatever the headers, and whether or not the calls
  raised, the tracker has no attribute \<^verbatim>\<open>call_count\<close>, \<^verbatim>\<open>total_cputime\<close> or
  \<^verbatim>\<open>total_time\<close>, and both \<^verbatim>\<open>get_sleep_interval\<close> and \<^verbatim>\<open>info\<close> raise
  \<^verbatim>\<open>AttributeError\<close>.
\<close>

theorem RateLimit_usage_attributes_never_set:
  "set_limits json_loads hs (RateLimit_init rate_type) ''call_count'' = None \<and>
   set_limits json_loads hs (RateLimit_init rate_type) ''total_cputime'' = None \<and>
   set_limits json_loads hs (RateLimit_init rate_type) ''total_time'' = None \<and>
   RateLimit_get_sleep_interval (set_limits json_loads hs (RateLimit_init rate_type))
     = ([], Inl AttributeError) \<and>
   RateLimit_info (set_limits json_loads hs (RateLimit_init rate_type)) = Inl AttributeError"
  by (simp add: set_limits_other RateLimit_init_def RateLimit_get_sleep_interval_def
        RateLimit_info_def getattr_def)

text \<open>The call with both headers, and the call with the application header after it.\<close>

lemma app_and_business_parse:
  "parse_headers sample_loads headers_app_and_business ''x-app-usage''
     = ([], Inr (PDict [(''call_count'', PInt 15), (''total_cputime'', PInt 0), (''total_time'', PInt 0)]))"
  "parse_headers sample_loads headers_app_and_business ''x-business-use-case-usage''
     = ([], Inr (PDict [(''1'', PList [PDict [(''call_count'', PInt 10)]]),
                        (''2'', PList [PDict [(''call_count'', PInt 20)]])]))"
  using sample_truthy
  by (simp_all add: parse_headers_def headers_app_and_business_def sample_loads_simps)

lemma app_and_business_set_limit:
  "fst (snd (RateLimit_set_limit sample_loads headers_app_and_business (RateLimit_init (PStr ''app'')))) = None"
  "snd (snd (RateLimit_set_limit sample_loads headers_app_and_business (RateLimit_init (PStr ''app''))))
     ''resources'' = Some (PList [RateLimitData (PInt 20) (PInt 0) (PInt 0) PNone PNone])"
  by (simp_all add: RateLimit_set_limit_def app_and_business_parse set_app_usage_def
        set_business_usage_def records_of_def RateLimit_init_def kwarg_def field_names_def)

lemma app_update_on_list:
  "self ''resources'' = Some (PList ds) \<Longrightarrow>
   RateLimit_set_limit sample_loads headers_app_15 self = ([], Some TypeError, self)"
  using sample_truthy(1)
  by (simp add: RateLimit_set_limit_def parse_headers_def headers_app_15_def sample_loads_simps
        set_app_usage_def kwarg_def field_names_def)

text \<open>
  C4. A business header with two ids does not leave one record per array entry across
  all business ids: the loop assigns \<^verbatim>\<open>resources\<close> anew for every id and never uses
  the id, so the record of id 1 is lost and only that of id 2 remains. The assignment
  also turns \<^verbatim>\<open>resources\<close> from a dict into a list, so the next call that carries
  an application header raises \<^verbatim>\<open>TypeError\<close> when it stores under \<^verbatim>\<open>"app"\<close>.
\<close>

theorem business_usage_keeps_last_id_only:
  "snd (parse_headers sample_loads headers_app_and_business ''x-business-use-case-usage'')
     = Inr (PDict [(''1'', PList [PDict [(''call_count'', PInt 10)]]),
                   (''2'', PList [PDict [(''call_count'', PInt 20)]])]) \<and>
   records_across_all_ids [(''1'', PList [PDict [(''call_count'', PInt 10)]]),
                           (''2'', PList [PDict [(''call_count'', PInt 20)]])]
     = Inr [RateLimitData (PInt 10) (PInt 0) (PInt 0) PNone PNone,
            RateLimitData (PInt 20) (PInt 0) (PInt 0) PNone PNone] \<and>
   fst (snd (RateLimit_set_limit sample_loads headers_app_and_business (RateLimit_init (PStr ''app''))))
     = None \<and>
   snd (snd (RateLimit_set_limit sample_loads headers_app_and_business (RateLimit_init (PStr ''app''))))
     ''resources'' = Some (PList [RateLimitData (PInt 20) (PInt 0) (PInt 0) PNone PNone]) \<and>
   snd (snd (RateLimit_set_limit sample_loads headers_app_and_business (RateLimit_init (PStr ''app''))))
     ''resources'' \<noteq> Some (PList [RateLimitData (PInt 10) (PInt 0) (PInt 0) PNone PNone,
                                  RateLimitData (PInt 20) (PInt 0) (PInt 0) PNone PNone]) \<and>
   fst (snd (RateLimit_set_limit sample_loads headers_app_15
     (snd (snd (RateLimit_set_limit sample_loads headers_app_and_business
                  (RateLimit_init (PStr ''app''))))))) = Some TypeError"
  using app_update_on_list
    [where self = "snd (snd (RateLimit_set_limit sample_loads headers_app_and_business
                               (RateLimit_init (PStr ''app''))))"
       and ds = "[RateLimitData (PInt 20) (PInt 0) (PInt 0) PNone PNone]"]
  by (simp add: app_and_business_parse app_and_business_set_limit records_of_def kwarg_def
        field_names_def)

section \<open>Payloads that are not recovered, and headers that are\<close>

text \<open>
  C5, as stated, fails on both trackers. An application payload with an unknown field
  makes the call of \<^verbatim>\<open>RateLimitData\<close> raise \<^verbatim>\<open>TypeError\<close> outside any
  \<^verbatim>\<open>try\<close>; an entity whose usage array is empty makes the subscript raise
  \<^verbatim>\<open>IndexError\<close>, which the \<^verbatim>\<open>except\<close> clause does not catch; and neither
  tracker catches the \<^verbatim>\<open>RecursionError\<close> of \<^verbatim>\<open>json.loads\<close> on deeply nested
  input.
\<close>

theorem set_limit_raises_on_unexpected_shape:
  "fst (snd (RateLimit_set_limit sample_loads headers_app_unknown (RateLimit_init (PStr ''app''))))
     = Some TypeError \<and>
   fst (snd (InstagramRateLimit_set_limit sample_loads 1000 headers_business_empty ''123''
               (InstagramRateLimit_init [])))
     = Some IndexError \<and>
   fst (snd (RateLimit_set_limit sample_loads headers_app_nested (RateLimit_init (PStr ''app''))))
     = Some RecursionError \<and>
   fst (snd (InstagramRateLimit_set_limit sample_loads 1000 headers_business_nested ''123''
               (InstagramRateLimit_init [])))
     = Some RecursionError"
  using sample_truthy
  by (simp add: RateLimit_set_limit_def headers_app_unknown_def headers_app_nested_def
        headers_business_nested_def parse_headers_def sample_loads_simps
        set_app_usage_def field_names_def InstagramRateLimit_set_limit_def headers_business_empty_def
        select_usage_def)

lemma parse_headers_no_payload:
  "no_payload json_loads headers key \<Longrightarrow>
   parse_headers json_loads headers key = (error_log json_loads headers key, Inr PNone)"
  by (auto simp: no_payload_def parse_headers_def error_log_def split: option.splits if_splits)

lemma store_default_usage:
  "store_usage now default_usage self =
     (None, self(''call_count'' \<mapsto> PInt 0, ''total_cputime'' \<mapsto> PInt 0, ''total_time'' \<mapsto> PInt 0,
                 ''reset_at'' \<mapsto> PInt now))"
  by (simp add: store_usage_def default_usage_def py_add_int_def)

lemma select_usage_rejected:
  "json_loads raw = Inl ex \<Longrightarrow> ex = TypeError \<or> ex = JSONDecodeError \<Longrightarrow>
   select_usage json_loads raw business_id = ([Debug_no_info business_id raw], Inr default_usage)"
  by (auto simp: select_usage_def)

lemma set_app_usage_record:
  "set (map fst kwargs) \<subseteq> set field_names \<Longrightarrow> self ''resources'' = Some (PDict res) \<Longrightarrow>
   set_app_usage (PDict kwargs) self =
     (None, self(''resources'' \<mapsto> PDict (AList.update ''app''
        (RateLimitData (kwarg kwargs ''call_count'' (PInt 0)) (kwarg kwargs ''total_cputime'' (PInt 0))
           (kwarg kwargs ''total_time'' (PInt 0)) (kwarg kwargs ''type'' PNone)
           (kwarg kwargs ''estimated_time_to_regain_access'' PNone)) res)))"
  by (simp add: set_app_usage_def known_keywords)

text \<open>
  C5, amended. \<^verbatim>\<open>set_limit\<close> does not raise when every usage header it reads is
  absent, empty, or a value on which \<^verbatim>\<open>json.loads\<close> raises \<^verbatim>\<open>TypeError\<close> or
  \<^verbatim>\<open>JSONDecodeError\<close>. The application tracker then keeps its state and logs
  one error for each header of the last kind. The entity tracker changes and logs nothing
  when its header is absent or empty, and when \<^verbatim>\<open>json.loads\<close> raises one of the two
  exceptions it logs one debug line and stores the zero-usage default, with
  \<^verbatim>\<open>reset_at\<close> the current time. The application tracker also accepts an application
  payload that omits fields: when it decodes to an object whose keys are among the five
  attributes, \<^verbatim>\<open>resources\<close> is a dict and the business header has no payload, the
  record is stored under \<^verbatim>\<open>"app"\<close> with the defaults for the missing fields.
\<close>

theorem set_limit_recovers:
  "(no_payload json_loads headers ''x-app-usage'' \<and>
    no_payload json_loads headers ''x-business-use-case-usage'' \<longrightarrow>
      RateLimit_set_limit json_loads headers self
        = (error_log json_loads headers ''x-app-usage''
             @ error_log json_loads headers ''x-business-use-case-usage'', None, self)) \<and>
   (headers ''x-app-usage'' = Some usage \<and> truthy usage \<and>
    json_loads usage = Inr (PDict kwargs) \<and> set (map fst kwargs) \<subseteq> set field_names \<and>
    self ''resources'' = Some (PDict res) \<and>
    no_payload json_loads headers ''x-business-use-case-usage'' \<longrightarrow>
      RateLimit_set_limit json_loads headers self
        = (error_log json_loads headers ''x-business-use-case-usage'', None,
           self(''resources'' \<mapsto> PDict (AList.update ''app''
             (RateLimitData (kwarg kwargs ''call_count'' (PInt 0))
                (kwarg kwargs ''total_cputime'' (PInt 0)) (kwarg kwargs ''total_time'' (PInt 0))
                (kwarg kwargs ''type'' PNone)
                (kwarg kwargs ''estimated_time_to_regain_access'' PNone)) res)))) \<and>
   (headers ''x-business-use-case-usage'' = None \<or>
    headers ''x-business-use-case-usage'' = Some raw \<and> \<not> truthy raw \<longrightarrow>
      InstagramRateLimit_set_limit json_loads now headers business_id entity = ([], None, entity)) \<and>
   (headers ''x-business-use-case-usage'' = Some raw \<and> truthy raw \<and>
    (json_loads raw = Inl TypeError \<or> json_loads raw = Inl JSONDecodeError) \<longrightarrow>
      InstagramRateLimit_set_limit json_loads now headers business_id entity
        = ([Debug_no_info business_id raw], None,
           entity(''call_count'' \<mapsto> PInt 0, ''total_cputime'' \<mapsto> PInt 0,
                  ''total_time'' \<mapsto> PInt 0, ''reset_at'' \<mapsto> PInt now)))"
proof (intro conjI impI)
  assume "no_payload json_loads headers ''x-app-usage'' \<and>
    no_payload json_loads headers ''x-business-use-case-usage''"
  then show "RateLimit_set_limit json_loads headers self
        = (error_log json_loads headers ''x-app-usage''
             @ error_log json_loads headers ''x-business-use-case-usage'', None, self)"
    by (simp add: RateLimit_set_limit_def parse_headers_no_payload set_app_usage_def
          set_business_usage_def)
next
  assume a: "headers ''x-app-usage'' = Some usage \<and> truthy usage \<and>
    json_loads usage = Inr (PDict kwargs) \<and> set (map fst kwargs) \<subseteq> set field_names \<and>
    self ''resources'' = Some (PDict res) \<and>
    no_payload json_loads headers ''x-business-use-case-usage''"
  then have p: "parse_headers json_loads headers ''x-app-usage'' = ([], Inr (PDict kwargs))"
    by (simp add: parse_headers_def)
  from a have s: "set (map fst kwargs) \<subseteq> set field_names" "self ''resources'' = Some (PDict res)"
    by simp_all
  from a p s set_app_usage_record [of kwargs self res]
  show "RateLimit_set_limit json_loads headers self
        = (error_log json_loads headers ''x-business-use-case-usage'', None,
           self(''resources'' \<mapsto> PDict (AList.update ''app''
             (RateLimitData (kwarg kwargs ''call_count'' (PInt 0))
                (kwarg kwargs ''total_cputime'' (PInt 0)) (kwarg kwargs ''total_time'' (PInt 0))
                (kwarg kwargs ''type'' PNone)
                (kwarg kwargs ''estimated_time_to_regain_access'' PNone)) res)))"
    by (simp add: RateLimit_set_limit_def parse_headers_no_payload set_business_usage_def)
next
  assume "headers ''x-business-use-case-usage'' = None \<or>
    headers ''x-business-use-case-usage'' = Some raw \<and> \<not> truthy raw"
  then show "InstagramRateLimit_set_limit json_loads now headers business_id entity = ([], None, entity)"
    by (auto simp: InstagramRateLimit_set_limit_def)
next
  assume a: "headers ''x-business-use-case-usage'' = Some raw \<and> truthy raw \<and>
    (json_loads raw = Inl TypeError \<or> json_loads raw = Inl JSONDecodeError)"
  then have "select_usage json_loads raw business_id
      = ([Debug_no_info business_id raw], Inr default_usage)"
    using select_usage_rejected [of json_loads raw] by auto
  with a show "InstagramRateLimit_set_limit json_loads now headers business_id entity
        = ([Debug_no_info business_id raw], None,
           entity(''call_count'' \<mapsto> PInt 0, ''total_cputime'' \<mapsto> PInt 0,
                  ''total_time'' \<mapsto> PInt 0, ''reset_at'' \<mapsto> PInt now))"
    by (simp add: InstagramRateLimit_set_limit_def store_default_usage)
qed

text \<open>
  An application header that is \<^verbatim>\<open>not-json\<close>; one that omits \<^verbatim>\<open>total_time\<close>;
  an entity tracker without a header; and one whose header is \<^verbatim>\<open>not-json\<close>.
\<close>

theorem set_limit_recovers_witness:
  "RateLimit_set_limit sample_loads headers_not_json (RateLimit_init (PStr ''app''))
     = ([Error_parse ''x-app-usage'' (HStr ''not-json'') JSONDecodeError], None,
        RateLimit_init (PStr ''app'')) \<and>
   RateLimit_set_limit sample_loads headers_app_partial (RateLimit_init (PStr ''app''))
     = ([], None,
        (RateLimit_init (PStr ''app''))
          (''resources'' \<mapsto> PDict [(''app'', RateLimitData (PInt 15) (PInt 2) (PInt 0) PNone PNone)])) \<and>
   InstagramRateLimit_set_limit sample_loads 1000 Map.empty ''123'' entity_50 = ([], None, entity_50) \<and>
   InstagramRateLimit_set_limit sample_loads 1000 headers_business_not_json ''123'' entity_50
     = ([Debug_no_info ''123'' (HStr ''not-json'')], None,
        entity_50(''call_count'' \<mapsto> PInt 0, ''total_cputime'' \<mapsto> PInt 0,
                  ''total_time'' \<mapsto> PInt 0, ''reset_at'' \<mapsto> PInt 1000))"
proof -
  have n: "no_payload sample_loads headers_not_json ''x-app-usage''"
    "no_payload sample_loads headers_not_json ''x-business-use-case-usage''"
    "no_payload sample_loads headers_app_partial ''x-business-use-case-usage''"
    by (simp_all add: no_payload_def headers_not_json_def headers_app_partial_def sample_loads_simps)
  have l: "error_log sample_loads headers_not_json ''x-app-usage''
        = [Error_parse ''x-app-usage'' (HStr ''not-json'') JSONDecodeError]"
    "error_log sample_loads headers_not_json ''x-business-use-case-usage'' = []"
    "error_log sample_loads headers_app_partial ''x-business-use-case-usage'' = []"
    by (simp_all add: error_log_def headers_not_json_def headers_app_partial_def sample_loads_simps)
  have p: "headers_app_partial ''x-app-usage'' = Some (HStr app_partial)"
    "set (map fst [(''call_count'', PInt 15), (''total_cputime'', PInt 2)]) \<subseteq> set field_names"
    "RateLimit_init (PStr ''app'') ''resources'' = Some (PDict [])"
    by (simp_all add: headers_app_partial_def field_names_def RateLimit_init_def)
  have k: "kwarg [(''call_count'', PInt 15), (''total_cputime'', PInt 2)] ''call_count'' (PInt 0) = PInt 15"
    "kwarg [(''call_count'', PInt 15), (''total_cputime'', PInt 2)] ''total_cputime'' (PInt 0) = PInt 2"
    "kwarg [(''call_count'', PInt 15), (''total_cputime'', PInt 2)] ''total_time'' (PInt 0) = PInt 0"
    "kwarg [(''call_count'', PInt 15), (''total_cputime'', PInt 2)] ''type'' PNone = PNone"
    "kwarg [(''call_count'', PInt 15), (''total_cputime'', PInt 2)]
       ''estimated_time_to_regain_access'' PNone = PNone"
    by (simp_all add: kwarg_def)
  have b: "(Map.empty :: headers) ''x-business-use-case-usage'' = None"
    "headers_business_not_json ''x-business-use-case-usage'' = Some (HStr ''not-json'')"
    by (simp_all add: headers_business_not_json_def)
  note c1 = set_limit_recovers
    [where json_loads = sample_loads and headers = headers_not_json
       and self = "RateLimit_init (PStr ''app'')", THEN conjunct1, rule_format]
  note c2 = set_limit_recovers
    [where json_loads = sample_loads and headers = headers_app_partial
       and self = "RateLimit_init (PStr ''app'')" and usage = "HStr app_partial"
       and kwargs = "[(''call_count'', PInt 15), (''total_cputime'', PInt 2)]" and res = "[]",
     THEN conjunct2, THEN conjunct1, rule_format]
  note c3 = set_limit_recovers
    [where json_loads = sample_loads and headers = Map.empty and now = 1000
       and business_id = "''123''" and entity = entity_50,
     THEN conjunct2, THEN conjunct2, THEN conjunct1, rule_format]
  note c4 = set_limit_recovers
    [where json_loads = sample_loads and headers = headers_business_not_json and now = 1000
       and business_id = "''123''" and entity = entity_50 and raw = "HStr ''not-json''",
     THEN conjunct2, THEN conjunct2, THEN conjunct2, rule_format]
  show ?thesis
    using c1 c2 c3 c4 n l p k b sample_truthy sample_loads_simps by simp
qed

section \<open>The entity tracker\<close>

text \<open>
  C6, as stated, fails when the header is missing: \<^verbatim>\<open>set_limit\<close> then assigns
  nothing, so a tracker with \<^verbatim>\<open>call_count\<close> 50 and \<^verbatim>\<open>reset_at\<close> 5000 keeps
  both at time 1000, instead of getting 0 and the current time. It also fails on a
  malformed header on which \<^verbatim>\<open>json.loads\<close> raises \<^verbatim>\<open>RecursionError\<close>: the
  exception reaches the caller and the tracker keeps its state.
\<close>

theorem set_limit_without_header_keeps_state:
  "InstagramRateLimit_set_limit sample_loads 1000 Map.empty ''123'' entity_50 = ([], None, entity_50) \<and>
   entity_50 ''call_count'' = Some (PInt 50) \<and> entity_50 ''call_count'' \<noteq> Some (PInt 0) \<and>
   entity_50 ''reset_at'' = Some (PInt 5000) \<and> entity_50 ''reset_at'' \<noteq> Some (PInt 1000) \<and>
   InstagramRateLimit_set_limit sample_loads 1000 headers_business_nested ''123'' entity_50
     = ([], Some RecursionError, entity_50)"
  using sample_truthy(6)
  by (simp add: InstagramRateLimit_set_limit_def entity_50_def InstagramRateLimit_init_def kwarg_def
        headers_business_nested_def select_usage_def sample_loads_simps)

lemma store_usage_record:
  assumes "map_of d ''call_count'' = Some v1" "map_of d ''total_cputime'' = Some v2"
    "map_of d ''total_time'' = Some v3" "map_of d ''estimated_time_to_regain_access'' = Some v4"
    "as_int v4 = Some eta"
  shows "store_usage now (PDict d) self =
     (None, self(''call_count'' \<mapsto> v1, ''total_cputime'' \<mapsto> v2, ''total_time'' \<mapsto> v3,
                 ''reset_at'' \<mapsto> PInt (now + eta)))"
  using assms by (simp add: store_usage_def py_add_int_def)

text \<open>
  C6, amended. When the header decodes to an object in which the entity's array starts
  with an object that has the four fields, the last of them a number, \<^verbatim>\<open>set_limit\<close>
  stores the three counters as given and sets \<^verbatim>\<open>reset_at\<close> to the current time plus
  \<^verbatim>\<open>estimated_time_to_regain_access\<close>, overwriting what was there. When
  \<^verbatim>\<open>json.loads\<close> raises \<^verbatim>\<open>TypeError\<close> or \<^verbatim>\<open>JSONDecodeError\<close> on the header, or
  the decoded object has no entry for the entity, the three counters become 0 and
  \<^verbatim>\<open>reset_at\<close> the current time. When the header is missing or empty the tracker is
  left unchanged.
\<close>

theorem InstagramRateLimit_set_limit_cases:
  "(headers ''x-business-use-case-usage'' = Some raw \<and> truthy raw \<and>
    json_loads raw = Inr (PDict kvs) \<and> map_of kvs business_id = Some (PList (PDict d # more)) \<and>
    map_of d ''call_count'' = Some v1 \<and> map_of d ''total_cputime'' = Some v2 \<and>
    map_of d ''total_time'' = Some v3 \<and>
    map_of d ''estimated_time_to_regain_access'' = Some v4 \<and> as_int v4 = Some eta
    \<longrightarrow> InstagramRateLimit_set_limit json_loads now headers business_id self
        = ([], None, self(''call_count'' \<mapsto> v1, ''total_cputime'' \<mapsto> v2, ''total_time'' \<mapsto> v3,
                          ''reset_at'' \<mapsto> PInt (now + eta)))) \<and>
   (headers ''x-business-use-case-usage'' = Some raw \<and> truthy raw \<and>
    (json_loads raw = Inl TypeError \<or> json_loads raw = Inl JSONDecodeError)
    \<longrightarrow> InstagramRateLimit_set_limit json_loads now headers business_id self
        = ([Debug_no_info business_id raw], None,
           self(''call_count'' \<mapsto> PInt 0, ''total_cputime'' \<mapsto> PInt 0, ''total_time'' \<mapsto> PInt 0,
                ''reset_at'' \<mapsto> PInt now))) \<and>
   (headers ''x-business-use-case-usage'' = Some raw \<and> truthy raw \<and>
    json_loads raw = Inr (PDict kvs) \<and> map_of kvs business_id = None
    \<longrightarrow> InstagramRateLimit_set_limit json_loads now headers business_id self
        = ([], None,
           self(''call_count'' \<mapsto> PInt 0, ''total_cputime'' \<mapsto> PInt 0, ''total_time'' \<mapsto> PInt 0,
                ''reset_at'' \<mapsto> PInt now))) \<and>
   (headers ''x-business-use-case-usage'' = None \<or>
    headers ''x-business-use-case-usage'' = Some raw \<and> \<not> truthy raw
    \<longrightarrow> InstagramRateLimit_set_limit json_loads now headers business_id self = ([], None, self))"
proof (intro conjI impI)
  assume a: "headers ''x-business-use-case-usage'' = Some raw \<and> truthy raw \<and>
    json_loads raw = Inr (PDict kvs) \<and> map_of kvs business_id = Some (PList (PDict d # more)) \<and>
    map_of d ''call_count'' = Some v1 \<and> map_of d ''total_cputime'' = Some v2 \<and>
    map_of d ''total_time'' = Some v3 \<and>
    map_of d ''estimated_time_to_regain_access'' = Some v4 \<and> as_int v4 = Some eta"
  then have "select_usage json_loads raw business_id = ([], Inr (PDict d))"
    by (simp add: select_usage_def)
  with a store_usage_record [of d v1 v2 v3 v4 eta now self]
  show "InstagramRateLimit_set_limit json_loads now headers business_id self
        = ([], None, self(''call_count'' \<mapsto> v1, ''total_cputime'' \<mapsto> v2, ''total_time'' \<mapsto> v3,
                          ''reset_at'' \<mapsto> PInt (now + eta)))"
    by (simp add: InstagramRateLimit_set_limit_def)
next
  assume a: "headers ''x-business-use-case-usage'' = Some raw \<and> truthy raw \<and>
    (json_loads raw = Inl TypeError \<or> json_loads raw = Inl JSONDecodeError)"
  then have "select_usage json_loads raw business_id
      = ([Debug_no_info business_id raw], Inr default_usage)"
    using select_usage_rejected [of json_loads raw] by auto
  with a show "InstagramRateLimit_set_limit json_loads now headers business_id self
        = ([Debug_no_info business_id raw], None,
           self(''call_count'' \<mapsto> PInt 0, ''total_cputime'' \<mapsto> PInt 0, ''total_time'' \<mapsto> PInt 0,
                ''reset_at'' \<mapsto> PInt now))"
    by (simp add: InstagramRateLimit_set_limit_def store_default_usage)
next
  assume a: "headers ''x-business-use-case-usage'' = Some raw \<and> truthy raw \<and>
    json_loads raw = Inr (PDict kvs) \<and> map_of kvs business_id = None"
  then have "select_usage json_loads raw business_id = ([], Inr default_usage)"
    by (simp add: select_usage_def)
  with a show "InstagramRateLimit_set_limit json_loads now headers business_id self
        = ([], None,
           self(''call_count'' \<mapsto> PInt 0, ''total_cputime'' \<mapsto> PInt 0, ''total_time'' \<mapsto> PInt 0,
                ''reset_at'' \<mapsto> PInt now))"
    by (simp add: InstagramRateLimit_set_limit_def store_default_usage)
next
  assume "headers ''x-business-use-case-usage'' = None \<or>
    headers ''x-business-use-case-usage'' = Some raw \<and> \<not> truthy raw"
  then show "InstagramRateLimit_set_limit json_loads now headers business_id self = ([], None, self)"
    by (auto simp: InstagramRateLimit_set_limit_def)
qed

lemma business_123_loads:
  "headers_business_123 ''x-business-use-case-usage'' = Some (HStr business_123)"
  "sample_loads (HStr business_123) = Inr (PDict [(''123'', PList [PDict usage_123])])"
  by (simp_all add: headers_business_123_def sample_loads_simps usage_123_def)

text \<open>
  The four cases on a tracker that held \<^verbatim>\<open>call_count\<close> 50 and \<^verbatim>\<open>reset_at\<close> 5000,
  at time 1000.
\<close>

theorem InstagramRateLimit_set_limit_cases_witness:
  "InstagramRateLimit_set_limit sample_loads 1000 headers_business_123 ''123'' entity_50
     = ([], None, entity_50(''call_count'' \<mapsto> PInt 95, ''total_cputime'' \<mapsto> PInt 10,
                            ''total_time'' \<mapsto> PInt 10, ''reset_at'' \<mapsto> PInt (1000 + 120))) \<and>
   InstagramRateLimit_set_limit sample_loads 1000 headers_business_not_json ''123'' entity_50
     = ([Debug_no_info ''123'' (HStr ''not-json'')], None,
        entity_50(''call_count'' \<mapsto> PInt 0, ''total_cputime'' \<mapsto> PInt 0, ''total_time'' \<mapsto> PInt 0,
                  ''reset_at'' \<mapsto> PInt 1000)) \<and>
   InstagramRateLimit_set_limit sample_loads 1000 headers_business_123 ''456'' entity_50
     = ([], None,
        entity_50(''call_count'' \<mapsto> PInt 0, ''total_cputime'' \<mapsto> PInt 0, ''total_time'' \<mapsto> PInt 0,
                  ''reset_at'' \<mapsto> PInt 1000)) \<and>
   InstagramRateLimit_set_limit sample_loads 1000 Map.empty ''123'' entity_50 = ([], None, entity_50)"
proof -
  have t: "truthy (HStr business_123)" "truthy (HStr ''not-json'')"
    using sample_truthy by simp_all
  have n: "headers_business_not_json ''x-business-use-case-usage'' = Some (HStr ''not-json'')"
    "sample_loads (HStr ''not-json'') = Inl JSONDecodeError"
    by (simp_all add: headers_business_not_json_def sample_loads_simps)
  have m: "map_of [(''123'', PList [PDict usage_123])] ''123'' = Some (PList (PDict usage_123 # []))"
    "map_of [(''123'', PList [PDict usage_123])] ''456'' = None"
    "map_of usage_123 ''call_count'' = Some (PInt 95)"
    "map_of usage_123 ''total_cputime'' = Some (PInt 10)"
    "map_of usage_123 ''total_time'' = Some (PInt 10)"
    "map_of usage_123 ''estimated_time_to_regain_access'' = Some (PInt 120)"
    "as_int (PInt 120) = Some 120"
    by (simp_all add: usage_123_def)
  have e: "(Map.empty :: headers) ''x-business-use-case-usage'' = None" by simp
  note c1 = InstagramRateLimit_set_limit_cases
    [where headers = headers_business_123 and raw = "HStr business_123" and json_loads = sample_loads
       and kvs = "[(''123'', PList [PDict usage_123])]" and business_id = "''123''"
       and d = usage_123 and more = "[]" and ?v1.0 = "PInt 95" and ?v2.0 = "PInt 10"
       and ?v3.0 = "PInt 10" and ?v4.0 = "PInt 120" and eta = 120 and now = 1000 and self = entity_50,
     THEN conjunct1, rule_format]
  note c2 = InstagramRateLimit_set_limit_cases
    [where headers = headers_business_not_json and raw = "HStr ''not-json''"
       and json_loads = sample_loads and business_id = "''123''" and now = 1000 and self = entity_50,
     THEN conjunct2, THEN conjunct1, rule_format]
  note c3 = InstagramRateLimit_set_limit_cases
    [where headers = headers_business_123 and raw = "HStr business_123" and json_loads = sample_loads
       and kvs = "[(''123'', PList [PDict usage_123])]" and business_id = "''456''"
       and now = 1000 and self = entity_50,
     THEN conjunct2, THEN conjunct2, THEN conjunct1, rule_format]
  note c4 = InstagramRateLimit_set_limit_cases
    [where headers = Map.empty and json_loads = sample_loads and business_id = "''123''"
       and now = 1000 and self = entity_50,
     THEN conjunct2, THEN conjunct2, THEN conjunct2, rule_format]
  show ?thesis
    using c1 c2 c3 c4 t n m e business_123_loads by simp
qed

lemma entity_123_state:
  "InstagramRateLimit_set_limit sample_loads 1000 headers_business_123 ''123'' entity_50
     = ([], None, entity_50(''call_count'' \<mapsto> PInt 95, ''total_cputime'' \<mapsto> PInt 10,
                            ''total_time'' \<mapsto> PInt 10, ''reset_at'' \<mapsto> PInt 1120))"
  using sample_truthy(4)
  by (simp add: InstagramRateLimit_set_limit_def headers_business_123_def sample_loads_simps
        select_usage_def store_usage_def py_add_int_def)

text \<open>
  C7. When \<^verbatim>\<open>reset_at\<close> is a number greater than the current time,
  \<^verbatim>\<open>get_sleep_interval\<close> returns their difference (and logs it); when it is not
  greater and the three counters are numbers, it returns the interval of their maximum.
\<close>

theorem InstagramRateLimit_get_sleep_interval_value:
  "(self ''reset_at'' = Some vr \<and> as_int vr = Some r \<and> now < r
    \<longrightarrow> InstagramRateLimit_get_sleep_interval now self = ([Debug_remain (r - now)], Inr (r - now))) \<and>
   (self ''reset_at'' = Some vr \<and> as_int vr = Some r \<and> \<not> now < r \<and>
    self ''call_count'' = Some va \<and> as_int va = Some a \<and>
    self ''total_time'' = Some vb \<and> as_int vb = Some b \<and>
    self ''total_cputime'' = Some vc \<and> as_int vc = Some c
    \<longrightarrow> snd (InstagramRateLimit_get_sleep_interval now self)
          = Inr (snd (get_interval (max a (max b c)))))"
  by (simp add: InstagramRateLimit_get_sleep_interval_def getattr_def max_usage_interval_def
        split: prod.splits)

text \<open>
  The example of the specification: after \<^verbatim>\<open>set_limit\<close> at time 1000 with 120 seconds
  to regain access and \<^verbatim>\<open>call_count\<close> 95, the interval is 120 at time 1000, 119 a
  second later, and 600 once the 120 seconds have passed.
\<close>

theorem InstagramRateLimit_get_sleep_interval_value_witness:
  "snd (snd (InstagramRateLimit_set_limit sample_loads 1000 headers_business_123 ''123'' entity_50))
     ''reset_at'' = Some (PInt 1120) \<and>
   as_int (PInt 1120) = Some 1120 \<and> (1000 :: int) < 1120 \<and> (1001 :: int) < 1120 \<and>
   \<not> (1120 :: int) < 1120 \<and>
   InstagramRateLimit_get_sleep_interval 1000
     (snd (snd (InstagramRateLimit_set_limit sample_loads 1000 headers_business_123 ''123'' entity_50)))
     = ([Debug_remain 120], Inr 120) \<and>
   InstagramRateLimit_get_sleep_interval 1001
     (snd (snd (InstagramRateLimit_set_limit sample_loads 1000 headers_business_123 ''123'' entity_50)))
     = ([Debug_remain 119], Inr 119) \<and>
   snd (InstagramRateLimit_get_sleep_interval 1120
     (snd (snd (InstagramRateLimit_set_limit sample_loads 1000 headers_business_123 ''123'' entity_50))))
     = Inr 600"
proof -
  let ?s = "snd (snd (InstagramRateLimit_set_limit sample_loads 1000 headers_business_123 ''123'' entity_50))"
  have s: "?s ''reset_at'' = Some (PInt 1120)" "?s ''call_count'' = Some (PInt 95)"
    "?s ''total_time'' = Some (PInt 10)" "?s ''total_cputime'' = Some (PInt 10)"
    by (simp_all add: entity_123_state)
  have i: "as_int (PInt 1120) = Some 1120" "as_int (PInt 95) = Some 95" "as_int (PInt 10) = Some 10"
    by simp_all
  have g: "snd (get_interval (max 95 (max 10 10))) = 600"
    by (simp add: get_interval_def)
  note now = InstagramRateLimit_get_sleep_interval_value
    [where self = ?s and vr = "PInt 1120" and r = 1120 and now = 1000, THEN conjunct1, rule_format]
  note soon = InstagramRateLimit_get_sleep_interval_value
    [where self = ?s and vr = "PInt 1120" and r = 1120 and now = 1001, THEN conjunct1, rule_format]
  note later = InstagramRateLimit_get_sleep_interval_value
    [where self = ?s and vr = "PInt 1120" and r = 1120 and now = 1120 and va = "PInt 95" and a = 95
       and vb = "PInt 10" and b = 10 and vc = "PInt 10" and c = 10, THEN conjunct2, rule_format]
  show ?thesis
    using now soon later s i g by simp
qed

end
